theory Spec2Isabelle
  imports Main "HOL-Library.AList" "HOL-Library.Char_ord" "HOL-Library.List_Lexorder"
begin

section \<open>Python values and errors\<close>

text \<open>
  The module \<^verbatim>\<open>db.py\<close> is a facade (\<^verbatim>\<open>Data\<close>) over two storage engines: Berkeley DB
  through \<^verbatim>\<open>bsddb3\<close> and SQLite through \<^verbatim>\<open>sqlite3\<close>. The methods of the module are
  embedded one by one; the two engines are libraries outside the module and are
  represented by small executable models of the calls the module makes.

  A Python \<^verbatim>\<open>str\<close> is represented by its UTF-8 byte sequence, so \<^verbatim>\<open>encode\<close> and
  \<^verbatim>\<open>decode\<close> do not change the representation. An index whose name equals an
  attribute the object already has is not represented.
\<close>

type_synonym bytes = "char list"

definition encode :: "string \<Rightarrow> bytes" where
  "encode s = s"

definition decode :: "bytes \<Rightarrow> string" where
  "decode b = b"

text \<open>
  The exceptions the module can end in. The first group are Python's own, the second
  the engines'. \<open>UnknownIndexError\<close> and \<open>DuplicateIndexError\<close> are the kinds the
  specification names; no line of the module raises them (the module defines no
  exception class), they are here so that a result can be compared with them.
\<close>

datatype error =
    AttributeError | TypeError | KeyError | ValueError | IndexError | StopIteration
  | DBError | DBNotFoundError | DBInvalidArgError | DBNoSuchFileError
  | OperationalError | ProgrammingError
  | UnknownIndexError | DuplicateIndexError

text \<open>The values \<^verbatim>\<open>get\<close> and a fetched row can hold.\<close>

datatype pyval = PyNone | PyStr string | PyInt nat

fun truthy :: "pyval \<Rightarrow> bool" where
  "truthy PyNone = False"
| "truthy (PyStr s) = (s \<noteq> [])"
| "truthy (PyInt n) = (n \<noteq> 0)"

text \<open>
  A key as a method receives it: a \<^verbatim>\<open>str\<close>, or the \<^verbatim>\<open>bytes\<close> that \<^verbatim>\<open>Data.delete\<close>
  makes of it. \<^verbatim>\<open>str(key)\<close> is the identity on a \<^verbatim>\<open>str\<close> and the \<^verbatim>\<open>repr\<close> on \<^verbatim>\<open>bytes\<close>:
  \<^verbatim>\<open>str(b'game3') == "b'game3'"\<close>.
\<close>

datatype pykey = KStr string | KBytes bytes

definition hexdigit :: "nat \<Rightarrow> char" where
  "hexdigit n = ''0123456789abcdef'' ! n"

definition escape_byte :: "char \<Rightarrow> char \<Rightarrow> string" where
  "escape_byte q c =
     (if c = q \<or> c = CHR 0x5C then [CHR 0x5C, c]
      else if c = CHR 0x09 then [CHR 0x5C, CHR ''t'']
      else if c = CHR 0x0A then [CHR 0x5C, CHR ''n'']
      else if c = CHR 0x0D then [CHR 0x5C, CHR ''r'']
      else if (of_char c :: nat) < 32 \<or> 127 \<le> (of_char c :: nat)
        then [CHR 0x5C, CHR ''x'', hexdigit ((of_char c :: nat) div 16), hexdigit ((of_char c :: nat) mod 16)]
      else [c])"

definition bytes_repr :: "bytes \<Rightarrow> string" where
  "bytes_repr b =
     (let q = (if CHR 0x27 \<in> set b \<and> CHR 0x22 \<notin> set b then CHR 0x22 else CHR 0x27)
      in CHR ''b'' # q # concat (map (escape_byte q) b) @ [q])"

fun str :: "pykey \<Rightarrow> string" where
  "str (KStr s) = s"
| "str (KBytes b) = bytes_repr b"

section \<open>The ordered engine: Berkeley DB as the module uses it\<close>

text \<open>
  A B-tree database file is its entries in ascending key order (bytewise
  lexicographic, the engine's default comparison). The environment holds the files by
  name. A handle (\<^verbatim>\<open>db.DB\<close>) names its file; a cursor remembers the key it stands on.
  Engine behaviour taken as given: \<^verbatim>\<open>DB.get\<close> returns \<^verbatim>\<open>None\<close> for a missing key,
  \<^verbatim>\<open>DB.delete\<close> raises \<^verbatim>\<open>DBNotFoundError\<close> for a missing key, \<^verbatim>\<open>DBCursor.next\<close> returns
  \<^verbatim>\<open>None\<close> past the last entry, \<^verbatim>\<open>DB.verify\<close> is refused on a handle that has been
  opened, and a closed handle or cursor refuses every call.
  The environment directory holds files and no subdirectories. \<^verbatim>\<open>DB.open\<close> with
  \<^verbatim>\<open>DB_CREATE\<close> creates a missing file; it cannot take a name with a NUL character
  (\<^verbatim>\<open>ValueError\<close>, from Python), a name with a \<^verbatim>\<open>/\<close>, which names a file in a directory
  that is not there, or a name longer than the 255 bytes a file name can have.
\<close>

type_synonym bdb = "(bytes \<times> bytes) list"

record DBEnv =
  files :: "(string \<times> bdb) list"
  env_closed :: bool

record DB =
  fname :: string
  db_closed :: bool

record DBCursor =
  cfile :: string
  pos :: "bytes option"
  cursor_closed :: bool

definition contents :: "DBEnv \<Rightarrow> string \<Rightarrow> bdb" where
  "contents env f = (case map_of (files env) f of None \<Rightarrow> [] | Some d \<Rightarrow> d)"

fun bdb_put :: "bytes \<Rightarrow> bytes \<Rightarrow> bdb \<Rightarrow> bdb" where
  "bdb_put k v [] = [(k, v)]"
| "bdb_put k v ((k', v') # xs) =
     (if k < k' then (k, v) # (k', v') # xs
      else if k = k' then (k, v) # xs
      else (k', v') # bdb_put k v xs)"

definition DB_open :: "DBEnv \<Rightarrow> string \<Rightarrow> error + (DB \<times> DBEnv)" where
  "DB_open env f =
     (if env_closed env then Inl DBError
      else if CHR 0x00 \<in> set f then Inl ValueError
      else if CHR ''/'' \<in> set f then Inl DBNoSuchFileError
      else if 255 < length f then Inl DBError
      else Inr (\<lparr>fname = f, db_closed = False\<rparr>,
                (case map_of (files env) f of
                   None \<Rightarrow> env\<lparr>files := AList.update f [] (files env)\<rparr>
                 | Some _ \<Rightarrow> env)))"

definition file_name :: "string \<Rightarrow> bool" where
  "file_name f = (CHR 0x00 \<notin> set f \<and> CHR ''/'' \<notin> set f \<and> length f \<le> 255)"

definition DB_put :: "DB \<Rightarrow> bytes \<Rightarrow> bytes \<Rightarrow> DBEnv \<Rightarrow> error + DBEnv" where
  "DB_put h k v env =
     (if db_closed h then Inl DBError
      else Inr (env\<lparr>files := AList.update (fname h) (bdb_put k v (contents env (fname h))) (files env)\<rparr>))"

definition DB_get :: "DB \<Rightarrow> bytes \<Rightarrow> DBEnv \<Rightarrow> error + bytes option" where
  "DB_get h k env =
     (if db_closed h then Inl DBError else Inr (map_of (contents env (fname h)) k))"

definition DB_delete :: "DB \<Rightarrow> bytes \<Rightarrow> DBEnv \<Rightarrow> error + DBEnv" where
  "DB_delete h k env =
     (if db_closed h then Inl DBError
      else if map_of (contents env (fname h)) k = None then Inl DBNotFoundError
      else Inr (env\<lparr>files := AList.update (fname h)
                  (filter (\<lambda>(k', v'). k' \<noteq> k) (contents env (fname h))) (files env)\<rparr>))"

definition DB_cursor :: "DB \<Rightarrow> error + DBCursor" where
  "DB_cursor h =
     (if db_closed h then Inl DBError
      else Inr \<lparr>cfile = fname h, pos = None, cursor_closed = False\<rparr>)"

definition after :: "bytes option \<Rightarrow> bytes \<times> bytes \<Rightarrow> bool" where
  "after p e = (case p of None \<Rightarrow> True | Some k \<Rightarrow> k < fst e)"

definition DBCursor_next :: "DBCursor \<Rightarrow> DBEnv \<Rightarrow> error + ((bytes \<times> bytes) option \<times> DBCursor)" where
  "DBCursor_next c env =
     (if cursor_closed c then Inl DBError
      else (case find (after (pos c)) (contents env (cfile c)) of
              None \<Rightarrow> Inr (None, c)
            | Some (k, v) \<Rightarrow> Inr (Some (k, v), c\<lparr>pos := Some k\<rparr>)))"

definition DBCursor_close :: "DBCursor \<Rightarrow> DBCursor" where
  "DBCursor_close c = c\<lparr>cursor_closed := True\<rparr>"

definition DB_close :: "DB \<Rightarrow> DB" where
  "DB_close h = h\<lparr>db_closed := True\<rparr>"

definition DB_verify :: "DB \<Rightarrow> string \<Rightarrow> (error + unit) \<times> DB" where
  "DB_verify h f = (Inl (if db_closed h then DBError else DBInvalidArgError), h\<lparr>db_closed := True\<rparr>)"

definition DBEnv_close :: "DBEnv \<Rightarrow> DBEnv" where
  "DBEnv_close env = env\<lparr>env_closed := True\<rparr>"

section \<open>The relational engine: SQLite as the module uses it\<close>

text \<open>
  A relation is its rows \<open>(key, value)\<close> in rowid order: \<^verbatim>\<open>INSERT\<close> appends, and a
  \<^verbatim>\<open>SELECT\<close> without ordering returns the rows in that order. The connection holds
  the relations by name, the last committed state, and the rows of the last statement
  that the one cursor of the module (\<^verbatim>\<open>self.cur\<close>) has not fetched yet. The statements
  are the ten the module writes. Engine behaviour taken as given: a statement on a
  missing relation, \<^verbatim>\<open>CREATE TABLE\<close> of an existing one and a \<^verbatim>\<open>?\<close> in the place of a
  column name are refused with \<^verbatim>\<open>OperationalError\<close>; a closed connection refuses every
  call with \<^verbatim>\<open>ProgrammingError\<close>.

  The module writes the table name into the text of a statement with \<^verbatim>\<open>str.format\<close>, so
  the engine reads it as SQL. \<^verbatim>\<open>CREATE TABLE\<close> is taken for a bare name: letters, digits
  and underscores, not starting with a digit, not one of the engine's keywords, not
  starting with \<^verbatim>\<open>sqlite_\<close>, and not the name of a relation that is there already, where
  the engine compares names without regard to the case of ASCII letters. Every other
  text is refused with \<^verbatim>\<open>OperationalError\<close>: the empty name, \<^verbatim>\<open>a b\<close>, \<^verbatim>\<open>1x\<close>, \<^verbatim>\<open>my-table\<close>,
  \<^verbatim>\<open>order\<close>, \<^verbatim>\<open>sqlite_x\<close>, \<^verbatim>\<open>Games\<close> beside \<^verbatim>\<open>games\<close>. The engine itself reads a few more
  texts as a table name (a quoted name, some of its keywords); they are refused here
  as well, and no statement below is about them. The lookup
  \<^verbatim>\<open>SELECT * FROM sqlite_master WHERE ... name=?\<close> passes the name as a parameter and
  compares it exactly.
\<close>

definition ascii_lower :: "string \<Rightarrow> string" where
  "ascii_lower s =
     map (\<lambda>c. if c \<in> set ''ABCDEFGHIJKLMNOPQRSTUVWXYZ'' then char_of ((of_char c :: nat) + 32) else c) s"

definition name_start :: "char \<Rightarrow> bool" where
  "name_start c = (c \<in> set ''abcdefghijklmnopqrstuvwxyzABCDEFGHIJKLMNOPQRSTUVWXYZ_'')"

definition name_char :: "char \<Rightarrow> bool" where
  "name_char c = (name_start c \<or> c \<in> set ''0123456789'')"

definition sql_keywords :: "string list" where
  "sql_keywords =
     [''abort'', ''action'', ''add'', ''after'', ''all'', ''alter'', ''always'', ''analyze'', ''and'',
      ''as'', ''asc'', ''attach'', ''autoincrement'', ''before'', ''begin'', ''between'', ''by'',
      ''cascade'', ''case'', ''cast'', ''check'', ''collate'', ''column'', ''commit'', ''conflict'',
      ''constraint'', ''create'', ''cross'', ''current'', ''current_date'', ''current_time'',
      ''current_timestamp'', ''database'', ''default'', ''deferrable'', ''deferred'', ''delete'',
      ''desc'', ''detach'', ''distinct'', ''do'', ''drop'', ''each'', ''else'', ''end'', ''escape'',
      ''except'', ''exclude'', ''exclusive'', ''exists'', ''explain'', ''fail'', ''filter'', ''first'',
      ''following'', ''for'', ''foreign'', ''from'', ''full'', ''generated'', ''glob'', ''group'',
      ''groups'', ''having'', ''if'', ''ignore'', ''immediate'', ''in'', ''index'', ''indexed'',
      ''initially'', ''inner'', ''insert'', ''instead'', ''intersect'', ''into'', ''is'', ''isnull'',
      ''join'', ''key'', ''last'', ''left'', ''like'', ''limit'', ''match'', ''materialized'',
      ''natural'', ''no'', ''not'', ''nothing'', ''notnull'', ''null'', ''nulls'', ''of'', ''offset'',
      ''on'', ''or'', ''order'', ''others'', ''outer'', ''over'', ''partition'', ''plan'', ''pragma'',
      ''preceding'', ''primary'', ''query'', ''raise'', ''range'', ''recursive'', ''references'',
      ''regexp'', ''reindex'', ''release'', ''rename'', ''replace'', ''restrict'', ''returning'',
      ''right'', ''rollback'', ''row'', ''rows'', ''savepoint'', ''select'', ''set'', ''table'',
      ''temp'', ''temporary'', ''then'', ''ties'', ''to'', ''transaction'', ''trigger'', ''unbounded'',
      ''union'', ''unique'', ''update'', ''using'', ''vacuum'', ''values'', ''view'', ''virtual'',
      ''when'', ''where'', ''window'', ''with'', ''within'', ''without'']"

definition bare_name :: "string \<Rightarrow> bool" where
  "bare_name n =
     (case n of
        [] \<Rightarrow> False
      | c # cs \<Rightarrow>
          name_start c \<and> list_all name_char cs
          \<and> ascii_lower n \<notin> set sql_keywords
          \<and> take 7 (ascii_lower n) \<noteq> ''sqlite_'')"

definition same_name :: "string \<Rightarrow> (string \<times> 'r) list \<Rightarrow> bool" where
  "same_name n rels = (ascii_lower n \<in> set (map (\<lambda>(m, r). ascii_lower m) rels))"

type_synonym relation = "(string \<times> string) list"

type_synonym row = "pyval list"

record Connection =
  relations :: "(string \<times> relation) list"
  committed :: "(string \<times> relation) list"
  pending :: "row list"
  conn_closed :: bool

datatype statement =
    SELECT_master string
  | CREATE_TABLE string
  | SELECT_COUNT string
  | SELECT_key_value string
  | SELECT_value string string
  | INSERT string string string
  | UPDATE string string string string
  | DELETE string string
  | ALTER_ADD_COLUMN string string
  | UPDATE_SET_param string string string string

definition run :: "statement \<Rightarrow> (string \<times> relation) list \<Rightarrow> error + ((string \<times> relation) list \<times> row list)" where
  "run st rels =
     (case st of
        SELECT_master n \<Rightarrow>
          Inr (rels, (case map_of rels n of None \<Rightarrow> [] | Some _ \<Rightarrow> [[PyStr ''table'', PyStr n]]))
      | CREATE_TABLE n \<Rightarrow>
          (if bare_name n \<and> \<not> same_name n rels then Inr (AList.update n [] rels, [])
           else Inl OperationalError)
      | SELECT_COUNT n \<Rightarrow>
          (case map_of rels n of None \<Rightarrow> Inl OperationalError
           | Some r \<Rightarrow> Inr (rels, [[PyInt (length r)]]))
      | SELECT_key_value n \<Rightarrow>
          (case map_of rels n of None \<Rightarrow> Inl OperationalError
           | Some r \<Rightarrow> Inr (rels, map (\<lambda>(k, v). [PyStr k, PyStr v]) r))
      | SELECT_value n key \<Rightarrow>
          (case map_of rels n of None \<Rightarrow> Inl OperationalError
           | Some r \<Rightarrow> Inr (rels, map (\<lambda>(k, v). [PyStr v]) (filter (\<lambda>(k, v). k = key) r)))
      | INSERT n key value \<Rightarrow>
          (case map_of rels n of None \<Rightarrow> Inl OperationalError
           | Some r \<Rightarrow> Inr (AList.update n (r @ [(key, value)]) rels, []))
      | UPDATE n key value wkey \<Rightarrow>
          (case map_of rels n of None \<Rightarrow> Inl OperationalError
           | Some r \<Rightarrow> Inr (AList.update n (map (\<lambda>(k, v). if k = wkey then (key, value) else (k, v)) r) rels, []))
      | DELETE n key \<Rightarrow>
          (case map_of rels n of None \<Rightarrow> Inl OperationalError
           | Some r \<Rightarrow> Inr (AList.update n (filter (\<lambda>(k, v). k \<noteq> key) r) rels, []))
      | ALTER_ADD_COLUMN n col \<Rightarrow> Inl OperationalError
      | UPDATE_SET_param n col value key \<Rightarrow> Inl OperationalError)"

definition execute :: "statement \<Rightarrow> Connection \<Rightarrow> error + Connection" where
  "execute st c =
     (if conn_closed c then Inl ProgrammingError
      else (case run st (relations c) of
              Inl e \<Rightarrow> Inl e
            | Inr (rels, rs) \<Rightarrow> Inr (c\<lparr>relations := rels, pending := rs\<rparr>)))"

definition fetchone :: "Connection \<Rightarrow> error + (row option \<times> Connection)" where
  "fetchone c =
     (if conn_closed c then Inl ProgrammingError
      else (case pending c of
              [] \<Rightarrow> Inr (None, c)
            | r # rs \<Rightarrow> Inr (Some r, c\<lparr>pending := rs\<rparr>)))"

definition commit :: "Connection \<Rightarrow> error + Connection" where
  "commit c =
     (if conn_closed c then Inl ProgrammingError else Inr (c\<lparr>committed := relations c\<rparr>))"

definition Connection_close :: "Connection \<Rightarrow> Connection" where
  "Connection_close c = c\<lparr>conn_closed := True\<rparr>"

section \<open>The objects of the module\<close>

text \<open>
  \<^verbatim>\<open>Index\<close>: the attributes \<^verbatim>\<open>add_index\<close> sets (\<^verbatim>\<open>db\<close>, \<^verbatim>\<open>cursor\<close>) and the one
  \<^verbatim>\<open>Data.table\<close> sets (\<^verbatim>\<open>cursor_value\<close>, absent until then).
  \<^verbatim>\<open>Table\<close>: \<^verbatim>\<open>name\<close>, \<^verbatim>\<open>cursor\<close> (\<^verbatim>\<open>False\<close> is \<open>None\<close>) and the dictionary \<^verbatim>\<open>indexes\<close>
  of \<^verbatim>\<open>Table.__init__\<close>; \<open>attrs\<close> holds the \<^verbatim>\<open>Index\<close> objects bound to the table object
  itself as attributes, which is where \<^verbatim>\<open>Data.table\<close> looks a selector up. A
  \<^verbatim>\<open>BSDTable\<close> adds its handle \<^verbatim>\<open>db\<close>. The \<^verbatim>\<open>cur\<close> and \<^verbatim>\<open>db\<close> of a \<^verbatim>\<open>SQLTable\<close> are the
  facade's own cursor and connection, and its \<^verbatim>\<open>cursor\<close> is either \<^verbatim>\<open>False\<close> or that
  same cursor, so it has no state beyond \<^verbatim>\<open>Table\<close>'s.
  \<^verbatim>\<open>Data\<close>: \<^verbatim>\<open>path\<close>, the registry \<^verbatim>\<open>tables\<close> (a dictionary, in insertion order) and what
  the subclass adds: a \<^verbatim>\<open>Berkeley\<close> has \<^verbatim>\<open>env\<close>, and its attribute \<^verbatim>\<open>indexes\<close>, which
  \<^verbatim>\<open>close\<close> reads, is \<open>None\<close> when the object has no such attribute; a \<^verbatim>\<open>SQLite\<close> has
  its connection.
\<close>

record Index =
  idx_db :: DB
  idx_cursor :: "DBCursor option"
  cursor_value :: "string option"

record 'c Table =
  name :: string
  cursor :: "'c option"
  indexes :: "(string \<times> Index) list"
  attrs :: "(string \<times> Index) list"

record BSDTable = "DBCursor Table" +
  db :: DB

type_synonym SQLTable = "unit Table"

record Berkeley =
  env :: DBEnv
  indexes_attr :: "Index list option"

record ('t, 'e) Data =
  path :: string
  tables :: "(string \<times> 't) list"
  engine :: 'e

section \<open>Table and BSDTable\<close>

text \<open>
  A method of a table object takes the object, its arguments and the state of the
  engine its handles refer to, and returns the outcome (\<open>Inl\<close> the exception raised)
  together with the object and the engine as the call leaves them.
  A cursor object and a fetched tuple of two are true in Python, so \<^verbatim>\<open>not self.cursor\<close>
  holds exactly for \<^verbatim>\<open>False\<close> and \<^verbatim>\<open>not item\<close> exactly for \<^verbatim>\<open>None\<close>.
\<close>

definition Table_next :: "BSDTable \<Rightarrow> Berkeley \<Rightarrow> (error + pyval \<times> pyval) \<times> BSDTable \<times> Berkeley" where
  "Table_next t e =
     (case (case cursor t of None \<Rightarrow> DB_cursor (db t) | Some c \<Rightarrow> Inr c) of
        Inl err \<Rightarrow> (Inl err, t, e)
      | Inr c \<Rightarrow>
          (case DBCursor_next c (env e) of
             Inl err \<Rightarrow> (Inl err, t\<lparr>cursor := Some c\<rparr>, e)
           | Inr (None, c') \<Rightarrow> (Inl StopIteration, t\<lparr>cursor := None\<rparr>, e)
           | Inr (Some (key, value), c') \<Rightarrow>
               (Inr (PyStr (decode key), PyStr (decode value)), t\<lparr>cursor := Some c'\<rparr>, e)))"

definition Table_delete :: "BSDTable \<Rightarrow> pykey \<Rightarrow> Berkeley \<Rightarrow> (error + unit) \<times> BSDTable \<times> Berkeley" where
  "Table_delete t key e =
     (case key of
        KStr s \<Rightarrow> (Inl TypeError, t, e)
      | KBytes b \<Rightarrow>
          (case DB_delete (db t) b (env e) of
             Inl err \<Rightarrow> (Inl err, t, e)
           | Inr env' \<Rightarrow> (Inr (), t, e\<lparr>env := env'\<rparr>)))"

definition Table_verify :: "BSDTable \<Rightarrow> string \<Rightarrow> Berkeley \<Rightarrow> (error + unit) \<times> BSDTable \<times> Berkeley" where
  "Table_verify t f e = (case DB_verify (db t) f of (r, h) \<Rightarrow> (r, t\<lparr>db := h\<rparr>, e))"

definition BSDTable_init :: "string \<Rightarrow> DB \<Rightarrow> BSDTable" where
  "BSDTable_init n db_obj = \<lparr>name = n, cursor = None, indexes = [], attrs = [], db = db_obj\<rparr>"

definition BSDTable_put :: "BSDTable \<Rightarrow> string \<Rightarrow> string \<Rightarrow> Berkeley \<Rightarrow> (error + unit) \<times> BSDTable \<times> Berkeley" where
  "BSDTable_put t key data e =
     (case DB_put (db t) (encode key) (encode data) (env e) of
        Inl err \<Rightarrow> (Inl err, t, e)
      | Inr env' \<Rightarrow> (Inr (), t, e\<lparr>env := env'\<rparr>))"

text \<open>\<^verbatim>\<open>data.decode()\<close> on the \<^verbatim>\<open>None\<close> of a missing key is an \<^verbatim>\<open>AttributeError\<close>.\<close>

definition BSDTable_get :: "BSDTable \<Rightarrow> string \<Rightarrow> Berkeley \<Rightarrow> (error + pyval) \<times> BSDTable \<times> Berkeley" where
  "BSDTable_get t key e =
     (case DB_get (db t) (encode key) (env e) of
        Inl err \<Rightarrow> (Inl err, t, e)
      | Inr None \<Rightarrow> (Inl AttributeError, t, e)
      | Inr (Some data) \<Rightarrow> (Inr (PyStr (decode data)), t, e))"

definition BSDTable_close :: "BSDTable \<Rightarrow> BSDTable" where
  "BSDTable_close t = t\<lparr>db := DB_close (db t)\<rparr>"

text \<open>\<^verbatim>\<open>len(t)\<close> on a \<^verbatim>\<open>BSDTable\<close>: neither it nor \<^verbatim>\<open>Table\<close> defines \<^verbatim>\<open>__len__\<close>.\<close>

definition BSDTable_len :: "BSDTable \<Rightarrow> Berkeley \<Rightarrow> (error + pyval) \<times> BSDTable \<times> Berkeley" where
  "BSDTable_len t e = (Inl TypeError, t, e)"

section \<open>SQLTable\<close>

text \<open>
  \<^verbatim>\<open>put\<close> and \<^verbatim>\<open>get\<close> are reached from the facade with the \<^verbatim>\<open>str\<close> arguments of the caller, on
  which \<^verbatim>\<open>str(...)\<close> changes nothing; \<^verbatim>\<open>delete\<close> is reached with the \<^verbatim>\<open>bytes\<close> that \<^verbatim>\<open>Data.delete\<close>
  made of the key. \<^verbatim>\<open>a[0]\<close> of a fetched row is its first column.
\<close>

definition first_column :: "(row option \<times> Connection) \<Rightarrow> (error + pyval) \<times> Connection" where
  "first_column a =
     (case a of
        (None, c) \<Rightarrow> (Inl TypeError, c)
      | (Some [], c) \<Rightarrow> (Inl IndexError, c)
      | (Some (x # _), c) \<Rightarrow> (Inr x, c))"

definition SQLTable_len :: "SQLTable \<Rightarrow> Connection \<Rightarrow> (error + pyval) \<times> SQLTable \<times> Connection" where
  "SQLTable_len t c =
     (case execute (SELECT_COUNT (name t)) c of
        Inl err \<Rightarrow> (Inl err, t, c)
      | Inr c1 \<Rightarrow>
          (case fetchone c1 of
             Inl err \<Rightarrow> (Inl err, t, c1)
           | Inr a \<Rightarrow> (case first_column a of (r, c2) \<Rightarrow> (r, t, c2))))"

definition SQLTable_next :: "SQLTable \<Rightarrow> Connection \<Rightarrow> (error + pyval \<times> pyval) \<times> SQLTable \<times> Connection" where
  "SQLTable_next t c =
     (case (case cursor t of
              None \<Rightarrow> (case execute (SELECT_key_value (name t)) c of
                         Inl err \<Rightarrow> Inl err
                       | Inr c1 \<Rightarrow> Inr (t\<lparr>cursor := Some ()\<rparr>, c1))
            | Some _ \<Rightarrow> Inr (t, c)) of
        Inl err \<Rightarrow> (Inl err, t, c)
      | Inr (t1, c1) \<Rightarrow>
          (case fetchone c1 of
             Inl err \<Rightarrow> (Inl err, t1, c1)
           | Inr (None, c2) \<Rightarrow> (Inl StopIteration, t1\<lparr>cursor := None\<rparr>, c2)
           | Inr (Some item, c2) \<Rightarrow>
               (case item of
                  [] \<Rightarrow> (Inl StopIteration, t1\<lparr>cursor := None\<rparr>, c2)
                | [key, value] \<Rightarrow> (Inr (key, value), t1, c2)
                | _ \<Rightarrow> (Inl ValueError, t1, c2))))"

definition SQLTable_get :: "SQLTable \<Rightarrow> pykey \<Rightarrow> Connection \<Rightarrow> (error + pyval) \<times> SQLTable \<times> Connection" where
  "SQLTable_get t key c =
     (case execute (SELECT_value (name t) (str key)) c of
        Inl err \<Rightarrow> (Inl err, t, c)
      | Inr c1 \<Rightarrow>
          (case fetchone c1 of
             Inl err \<Rightarrow> (Inl err, t, c1)
           | Inr (None, c2) \<Rightarrow> (Inr PyNone, t, c2)
           | Inr (Some [], c2) \<Rightarrow> (Inr PyNone, t, c2)
           | Inr (Some (x # _), c2) \<Rightarrow> (Inr x, t, c2)))"

fun execute_each :: "statement list \<Rightarrow> Connection \<Rightarrow> error + Connection" where
  "execute_each [] c = Inr c"
| "execute_each (st # sts) c =
     (case execute st c of Inl err \<Rightarrow> Inl err | Inr c' \<Rightarrow> execute_each sts c')"

text \<open>
  \<^verbatim>\<open>sql_statement\<close>: the statement of the mode, one \<^verbatim>\<open>UPDATE ... SET ?=?\<close> for each keyword
  argument in \<^verbatim>\<open>indexes\<close>, then \<^verbatim>\<open>commit\<close>. An exception leaves the connection as the
  statements before it made it.
\<close>

definition sql_statement ::
  "SQLTable \<Rightarrow> string \<Rightarrow> string \<Rightarrow> string \<Rightarrow> (string \<times> string) list \<Rightarrow> Connection
    \<Rightarrow> (error + unit) \<times> SQLTable \<times> Connection" where
  "sql_statement t mode key value idxs c =
     (case (if mode = ''INSERT'' then execute (INSERT (name t) key value) c
            else if mode = ''UPDATE'' then execute (UPDATE (name t) key value key) c
            else Inr c) of
        Inl err \<Rightarrow> (Inl err, t, c)
      | Inr c1 \<Rightarrow>
          (case execute_each (map (\<lambda>(index, x). UPDATE_SET_param (name t) index x key) idxs) c1 of
             Inl err \<Rightarrow> (Inl err, t, c1)
           | Inr c2 \<Rightarrow>
               (case commit c2 of
                  Inl err \<Rightarrow> (Inl err, t, c2)
                | Inr c3 \<Rightarrow> (Inr (), t, c3))))"

definition SQLTable_put ::
  "SQLTable \<Rightarrow> string \<Rightarrow> string \<Rightarrow> (string \<times> string) list \<Rightarrow> Connection
    \<Rightarrow> (error + unit) \<times> SQLTable \<times> Connection" where
  "SQLTable_put t key data idxs c =
     (case SQLTable_get t (KStr key) c of
        (Inl err, t1, c1) \<Rightarrow> (Inl err, t1, c1)
      | (Inr found, t1, c1) \<Rightarrow>
          (if \<not> truthy found then sql_statement t1 ''INSERT'' key data idxs c1
           else sql_statement t1 ''UPDATE'' key data idxs c1))"

definition SQLTable_delete :: "SQLTable \<Rightarrow> pykey \<Rightarrow> Connection \<Rightarrow> (error + unit) \<times> SQLTable \<times> Connection" where
  "SQLTable_delete t key c =
     (case execute (DELETE (name t) (str key)) c of
        Inl err \<Rightarrow> (Inl err, t, c)
      | Inr c1 \<Rightarrow> (Inr (), t, c1))"

text \<open>
  \<^verbatim>\<open>raise 'Index already exists'\<close> raises a \<^verbatim>\<open>str\<close>, which Python 3 turns into a
  \<^verbatim>\<open>TypeError\<close>. The last line calls \<^verbatim>\<open>append\<close> on a dictionary: \<^verbatim>\<open>AttributeError\<close>.
\<close>

definition SQLTable_add_index :: "SQLTable \<Rightarrow> string \<Rightarrow> Connection \<Rightarrow> (error + unit) \<times> SQLTable \<times> Connection" where
  "SQLTable_add_index t index c =
     (if index \<in> set (map fst (indexes t)) then (Inl TypeError, t, c)
      else (case execute (ALTER_ADD_COLUMN (name t) index) c of
              Inl err \<Rightarrow> (Inl err, t, c)
            | Inr c1 \<Rightarrow>
                (case commit c1 of
                   Inl err \<Rightarrow> (Inl err, t, c1)
                 | Inr c2 \<Rightarrow> (Inl AttributeError, t, c2))))"

text \<open>\<^verbatim>\<open>Table.verify\<close> on a \<^verbatim>\<open>SQLTable\<close>: a connection has no \<^verbatim>\<open>verify\<close>.\<close>

definition SQLTable_verify :: "SQLTable \<Rightarrow> string \<Rightarrow> Connection \<Rightarrow> (error + unit) \<times> SQLTable \<times> Connection" where
  "SQLTable_verify t f c = (Inl AttributeError, t, c)"

section \<open>Data\<close>

text \<open>
  The methods of \<^verbatim>\<open>Data\<close> are inherited by both subclasses and call methods the
  subclass or the table's class defines. \<open>Methods\<close> is that dispatch: what
  \<^verbatim>\<open>self.open\<close>, \<^verbatim>\<open>self.__exit__\<close> and the methods of \<^verbatim>\<open>self.tables[name]\<close> resolve to.
\<close>

record ('t, 'e) Methods =
  open_m :: "('t, 'e) Data \<Rightarrow> string \<Rightarrow> (error + unit) \<times> ('t, 'e) Data"
  exit_m :: "('t, 'e) Data \<Rightarrow> (error + unit) \<times> ('t, 'e) Data"
  put_m :: "'t \<Rightarrow> string \<Rightarrow> string \<Rightarrow> 'e \<Rightarrow> (error + unit) \<times> 't \<times> 'e"
  get_m :: "'t \<Rightarrow> string \<Rightarrow> 'e \<Rightarrow> (error + pyval) \<times> 't \<times> 'e"
  delete_m :: "'t \<Rightarrow> pykey \<Rightarrow> 'e \<Rightarrow> (error + unit) \<times> 't \<times> 'e"
  verify_m :: "'t \<Rightarrow> string \<Rightarrow> 'e \<Rightarrow> (error + unit) \<times> 't \<times> 'e"
  len_m :: "'t \<Rightarrow> 'e \<Rightarrow> (error + pyval) \<times> 't \<times> 'e"
  next_m :: "'t \<Rightarrow> 'e \<Rightarrow> (error + pyval \<times> pyval) \<times> 't \<times> 'e"

text \<open>
  \<^verbatim>\<open>self.tables[name].f(...)\<close>: a \<^verbatim>\<open>KeyError\<close> when the registry has no such name,
  otherwise the method on that table object, whose changes stay in the registry.
\<close>

definition on_table ::
  "('t, 'e) Data \<Rightarrow> string \<Rightarrow> ('t \<Rightarrow> 'e \<Rightarrow> (error + 'r) \<times> 't \<times> 'e) \<Rightarrow> (error + 'r) \<times> ('t, 'e) Data" where
  "on_table d n f =
     (case map_of (tables d) n of
        None \<Rightarrow> (Inl KeyError, d)
      | Some t \<Rightarrow>
          (case f t (engine d) of
             (r, t', e') \<Rightarrow> (r, d\<lparr>tables := AList.update n t' (tables d), engine := e'\<rparr>)))"

definition Data_open :: "('t, 'e) Data \<Rightarrow> string \<Rightarrow> 't \<Rightarrow> ('t, 'e) Data" where
  "Data_open d n db_obj = d\<lparr>tables := AList.update n db_obj (tables d)\<rparr>"

definition assert_exist :: "('t, 'e) Methods \<Rightarrow> ('t, 'e) Data \<Rightarrow> string \<Rightarrow> (error + unit) \<times> ('t, 'e) Data" where
  "assert_exist M d table =
     (if table \<notin> set (map fst (tables d)) then open_m M d table else (Inr (), d))"

definition Data_put ::
  "('t, 'e) Methods \<Rightarrow> ('t, 'e) Data \<Rightarrow> string \<Rightarrow> string \<Rightarrow> string \<Rightarrow> (error + unit) \<times> ('t, 'e) Data" where
  "Data_put M d n key data =
     (case assert_exist M d n of
        (Inl err, d1) \<Rightarrow> (Inl err, d1)
      | (Inr _, d1) \<Rightarrow> on_table d1 n (\<lambda>t. put_m M t key data))"

definition Data_get ::
  "('t, 'e) Methods \<Rightarrow> ('t, 'e) Data \<Rightarrow> string \<Rightarrow> string \<Rightarrow> (error + pyval) \<times> ('t, 'e) Data" where
  "Data_get M d n key =
     (case assert_exist M d n of
        (Inl err, d1) \<Rightarrow> (Inl err, d1)
      | (Inr _, d1) \<Rightarrow> on_table d1 n (\<lambda>t. get_m M t key))"

definition Data_delete ::
  "('t, 'e) Methods \<Rightarrow> ('t, 'e) Data \<Rightarrow> string \<Rightarrow> pykey \<Rightarrow> (error + unit) \<times> ('t, 'e) Data" where
  "Data_delete M d n key =
     (case assert_exist M d n of
        (Inl err, d1) \<Rightarrow> (Inl err, d1)
      | (Inr _, d1) \<Rightarrow> on_table d1 n (\<lambda>t. delete_m M t (KBytes (encode (str key)))))"

definition Data_verify ::
  "('t, 'e) Methods \<Rightarrow> ('t, 'e) Data \<Rightarrow> string \<Rightarrow> (error + unit) \<times> ('t, 'e) Data" where
  "Data_verify M d n = on_table d n (\<lambda>t. verify_m M t (n @ ''.db''))"

text \<open>
  \<^verbatim>\<open>Data.table\<close>, declared \<^verbatim>\<open>def table(self, name, **key)\<close>. A keyword argument called
  \<^verbatim>\<open>self\<close> or \<^verbatim>\<open>name\<close> gives a parameter a second value: the call is a \<^verbatim>\<open>TypeError\<close>
  and the body does not run. Otherwise the keyword arguments are a dictionary,
  \<^verbatim>\<open>popitem\<close> takes the one inserted last, and the loop returns in its first round.
  \<^verbatim>\<open>getattr(table, k)\<close> and \<^verbatim>\<open>setattr(index_obj, 'cursor_value', v)\<close>: an \<^verbatim>\<open>Index\<close> bound to
  the table object takes the value, and the table still refers to it; \<^verbatim>\<open>__class__\<close> is
  the class of the table, which takes the attribute too and is returned; a name
  the object does not have is an \<^verbatim>\<open>AttributeError\<close> of \<^verbatim>\<open>getattr\<close>, and every other attribute
  of the object (its fields, its methods, what it inherits from \<^verbatim>\<open>object\<close>) is a value
  that takes no new attribute, an \<^verbatim>\<open>AttributeError\<close> of \<^verbatim>\<open>setattr\<close>.
\<close>

datatype 't obj = TableObj 't | IndexObj Index | ClassObj

definition Data_table ::
  "(('c, 'z) Table_scheme, 'e) Methods \<Rightarrow> (('c, 'z) Table_scheme, 'e) Data \<Rightarrow> string
    \<Rightarrow> (string \<times> string) list \<Rightarrow> (error + ('c, 'z) Table_scheme obj) \<times> (('c, 'z) Table_scheme, 'e) Data" where
  "Data_table M d n key =
     (if ''self'' \<in> set (map fst key) then (Inl TypeError, d)
      else if ''name'' \<in> set (map fst key) then (Inl TypeError, d)
      else
     (case assert_exist M d n of
        (Inl err, d1) \<Rightarrow> (Inl err, d1)
      | (Inr _, d1) \<Rightarrow>
          (case map_of (tables d1) n of
             None \<Rightarrow> (Inl KeyError, d1)
           | Some table \<Rightarrow>
               (if key = [] then (Inr (TableObj table), d1)
                else (case last key of
                        (k, v) \<Rightarrow>
                          (if k = ''__class__'' then (Inr ClassObj, d1)
                           else (case map_of (attrs table) k of
                             None \<Rightarrow> (Inl AttributeError, d1)
                           | Some index_obj \<Rightarrow>
                               (Inr (IndexObj (index_obj\<lparr>cursor_value := Some v\<rparr>)),
                                d1\<lparr>tables := AList.update n
                                     (table\<lparr>attrs := AList.update k (index_obj\<lparr>cursor_value := Some v\<rparr>) (attrs table)\<rparr>)
                                     (tables d1)\<rparr>))))))))"

text \<open>
  \<^verbatim>\<open>with facade as data: body\<close>. \<^verbatim>\<open>__enter__\<close> returns the facade; \<^verbatim>\<open>__exit__\<close> runs
  however the body ends; it returns \<^verbatim>\<open>None\<close>, so an exception of the body goes on to
  the caller, unless \<^verbatim>\<open>__exit__\<close> raises one itself, which then replaces it.
\<close>

definition with_scope ::
  "('t, 'e) Methods \<Rightarrow> ('t, 'e) Data \<Rightarrow> (('t, 'e) Data \<Rightarrow> (error + 'r) \<times> ('t, 'e) Data)
    \<Rightarrow> (error + 'r) \<times> ('t, 'e) Data" where
  "with_scope M d body =
     (case body d of
        (r, d1) \<Rightarrow>
          (case exit_m M d1 of
             (Inl err, d2) \<Rightarrow> (Inl err, d2)
           | (Inr _, d2) \<Rightarrow> (r, d2)))"

section \<open>Berkeley\<close>

text \<open>
  \<^verbatim>\<open>Berkeley.__init__\<close> opens the environment over the files that are there and assigns
  \<^verbatim>\<open>env\<close>; with \<^verbatim>\<open>Data.__init__\<close> that makes \<^verbatim>\<open>path\<close>, \<^verbatim>\<open>tables\<close> and \<^verbatim>\<open>env\<close>, and no
  \<^verbatim>\<open>indexes\<close>.
\<close>

definition Berkeley_init :: "string \<Rightarrow> (string \<times> bdb) list \<Rightarrow> (BSDTable, Berkeley) Data" where
  "Berkeley_init p disk =
     \<lparr>path = p, tables = [],
      engine = \<lparr>env = \<lparr>files = disk, env_closed = False\<rparr>, indexes_attr = None\<rparr>\<rparr>"

definition Berkeley_open :: "(BSDTable, Berkeley) Data \<Rightarrow> string \<Rightarrow> (error + unit) \<times> (BSDTable, Berkeley) Data" where
  "Berkeley_open d n =
     (case DB_open (env (engine d)) (n @ ''.db'') of
        Inl err \<Rightarrow> (Inl err, d)
      | Inr (db_obj, env') \<Rightarrow>
          (Inr (), Data_open (d\<lparr>engine := (engine d)\<lparr>env := env'\<rparr>\<rparr>) n (BSDTable_init n db_obj)))"

definition close_index :: "Index \<Rightarrow> Index" where
  "close_index index =
     index\<lparr>idx_cursor := map_option DBCursor_close (idx_cursor index), idx_db := DB_close (idx_db index)\<rparr>"

definition close_table :: "BSDTable \<Rightarrow> BSDTable" where
  "close_table table = BSDTable_close (table\<lparr>cursor := map_option DBCursor_close (cursor table)\<rparr>)"

text \<open>
  \<^verbatim>\<open>Berkeley.close\<close>. Its first line reads \<^verbatim>\<open>self.indexes\<close>: an \<^verbatim>\<open>AttributeError\<close> when
  the object has none. Otherwise the two loops and \<^verbatim>\<open>env.close()\<close> run.
\<close>

definition Berkeley_close :: "(BSDTable, Berkeley) Data \<Rightarrow> (error + unit) \<times> (BSDTable, Berkeley) Data" where
  "Berkeley_close d =
     (case indexes_attr (engine d) of
        None \<Rightarrow> (Inl AttributeError, d)
      | Some ixs \<Rightarrow>
          (Inr (),
           d\<lparr>tables := map (\<lambda>(n, table). (n, close_table table)) (tables d),
             engine := \<lparr>env = DBEnv_close (env (engine d)), indexes_attr = Some (map close_index ixs)\<rparr>\<rparr>))"

definition Berkeley_exit :: "(BSDTable, Berkeley) Data \<Rightarrow> (error + unit) \<times> (BSDTable, Berkeley) Data" where
  "Berkeley_exit d = Berkeley_close d"

text \<open>
  \<^verbatim>\<open>Berkeley.add_index\<close>. \<^verbatim>\<open>raise '...'\<close> raises a \<^verbatim>\<open>str\<close>, which Python 3 turns into a
  \<^verbatim>\<open>TypeError\<close>. Past the check the new \<^verbatim>\<open>Index\<close> gets its database file, and then
  \<^verbatim>\<open>self.db.associate\<close> reads \<^verbatim>\<open>db\<close> on the facade, which has no such attribute. The
  \<^verbatim>\<open>Index\<close> is also bound to the facade under its own name; no other method reads that
  binding.
\<close>

definition Berkeley_add_index ::
  "(BSDTable, Berkeley) Data \<Rightarrow> string \<Rightarrow> (bytes \<Rightarrow> bytes \<Rightarrow> bytes) \<Rightarrow> string
    \<Rightarrow> (error + unit) \<times> (BSDTable, Berkeley) Data" where
  "Berkeley_add_index d index index_callback table =
     (if index \<in> set (map fst (tables d)) then (Inl TypeError, d)
      else (case DB_open (env (engine d)) (table @ ''_idx_'' @ index @ ''.db'') of
              Inl err \<Rightarrow> (Inl err, d)
            | Inr (db_obj, env') \<Rightarrow> (Inl AttributeError, d\<lparr>engine := (engine d)\<lparr>env := env'\<rparr>\<rparr>)))"

definition Berkeley_methods :: "(BSDTable, Berkeley) Methods" where
  "Berkeley_methods =
     \<lparr>open_m = Berkeley_open, exit_m = Berkeley_exit,
      put_m = BSDTable_put, get_m = BSDTable_get, delete_m = Table_delete,
      verify_m = Table_verify, len_m = BSDTable_len, next_m = Table_next\<rparr>"

section \<open>SQLite\<close>

definition SQLite_init :: "string \<Rightarrow> (string \<times> relation) list \<Rightarrow> (SQLTable, Connection) Data" where
  "SQLite_init p disk =
     \<lparr>path = p, tables = [],
      engine = \<lparr>relations = disk, committed = disk, pending = [], conn_closed = False\<rparr>\<rparr>"

definition SQLite_exit :: "(SQLTable, Connection) Data \<Rightarrow> (error + unit) \<times> (SQLTable, Connection) Data" where
  "SQLite_exit d =
     (case commit (engine d) of
        Inl err \<Rightarrow> (Inl err, d)
      | Inr c \<Rightarrow> (Inr (), d\<lparr>engine := Connection_close c\<rparr>))"

definition SQLTable_init :: "string \<Rightarrow> SQLTable" where
  "SQLTable_init n = \<lparr>name = n, cursor = None, indexes = [], attrs = []\<rparr>"

definition SQLite_open :: "(SQLTable, Connection) Data \<Rightarrow> string \<Rightarrow> (error + unit) \<times> (SQLTable, Connection) Data" where
  "SQLite_open d n =
     (case execute (SELECT_master n) (engine d) of
        Inl err \<Rightarrow> (Inl err, d)
      | Inr c1 \<Rightarrow>
          (case fetchone c1 of
             Inl err \<Rightarrow> (Inl err, d\<lparr>engine := c1\<rparr>)
           | Inr (Some (x # xs), c2) \<Rightarrow> (Inr (), Data_open (d\<lparr>engine := c2\<rparr>) n (SQLTable_init n))
           | Inr (_, c2) \<Rightarrow>
               (case execute (CREATE_TABLE n) c2 of
                  Inl err \<Rightarrow> (Inl err, d\<lparr>engine := c2\<rparr>)
                | Inr c3 \<Rightarrow>
                    (case commit c3 of
                       Inl err \<Rightarrow> (Inl err, d\<lparr>engine := c3\<rparr>)
                     | Inr c4 \<Rightarrow> (Inr (), Data_open (d\<lparr>engine := c4\<rparr>) n (SQLTable_init n))))))"

definition SQLite_methods :: "(SQLTable, Connection) Methods" where
  "SQLite_methods =
     \<lparr>open_m = SQLite_open, exit_m = SQLite_exit,
      put_m = (\<lambda>t key data. SQLTable_put t key data []),
      get_m = (\<lambda>t key. SQLTable_get t (KStr key)),
      delete_m = SQLTable_delete,
      verify_m = SQLTable_verify, len_m = SQLTable_len, next_m = SQLTable_next\<rparr>"

section \<open>Iterating a table\<close>

text \<open>
  \<^verbatim>\<open>for key, value in table\<close> (or \<^verbatim>\<open>list(table)\<close>): \<^verbatim>\<open>__iter__\<close> returns the table itself, and
  \<^verbatim>\<open>__next__\<close> is called until it raises \<^verbatim>\<open>StopIteration\<close>; any other exception ends the
  loop and goes on to the caller. The loop ends because every item fetched leaves
  fewer entries behind the cursor.
\<close>

definition remaining :: "BSDTable \<Rightarrow> Berkeley \<Rightarrow> nat" where
  "remaining t e =
     (case cursor t of
        None \<Rightarrow> Suc (length (contents (env e) (fname (db t))))
      | Some c \<Rightarrow> length (filter (after (pos c)) (contents (env e) (cfile c))))"

function list_Table :: "BSDTable \<Rightarrow> Berkeley \<Rightarrow> (error + (pyval \<times> pyval) list) \<times> BSDTable \<times> Berkeley" where
  "list_Table t e =
     (case Table_next t e of
        (Inl err, t', e') \<Rightarrow> (if err = StopIteration then (Inr [], t', e') else (Inl err, t', e'))
      | (Inr item, t', e') \<Rightarrow>
          (case list_Table t' e' of
             (Inl err, t'', e'') \<Rightarrow> (Inl err, t'', e'')
           | (Inr items, t'', e'') \<Rightarrow> (Inr (item # items), t'', e'')))"
  by pat_completeness auto
termination
proof (relation "measure (\<lambda>(t, e). remaining t e)")
  show "wf (measure (\<lambda>(t, e). remaining t e))" by simp
next
  fix t e x y item t' e'
  assume "(x, y) = Table_next t e" and "x = Inr item" and "(t', e') = y"
  then have nxt: "Table_next t e = (Inr item, t', e')" by (metis)
  have less: "length (filter Q xs) < length (filter P xs)"
    if "find P xs = Some z" "\<not> Q z" "\<And>y. Q y \<Longrightarrow> P y"
    for P Q :: "bytes \<times> bytes \<Rightarrow> bool" and xs z
    using that
  proof (induction xs)
    case Nil
    then show ?case by simp
  next
    case (Cons a xs)
    have le: "length (filter Q xs) \<le> length (filter P xs)"
      using Cons.prems(3) by (induction xs) (auto simp: le_Suc_eq)
    show ?case
    proof (cases "P a")
      case True
      with Cons.prems have "\<not> Q a" by simp
      with True le show ?thesis by simp
    next
      case False
      with Cons.prems have "find P xs = Some z" by simp
      from Cons.IH[OF this Cons.prems(2) Cons.prems(3)]
      have "length (filter Q xs) < length (filter P xs)" .
      moreover have "\<not> Q a" using False Cons.prems(3) by blast
      ultimately show ?thesis using False by simp
    qed
  qed
  have "remaining t' e' < remaining t e"
  proof (cases "cursor t")
    case None
    with nxt show ?thesis
      by (auto simp: Table_next_def remaining_def DB_cursor_def DBCursor_next_def after_def
          split: if_splits sum.splits option.splits prod.splits intro!: le_imp_less_Suc)
  next
    case (Some c)
    with nxt obtain k v where f: "find (after (pos c)) (contents (env e) (cfile c)) = Some (k, v)"
      and t': "t' = t\<lparr>cursor := Some (c\<lparr>pos := Some k\<rparr>)\<rparr>" and e': "e' = e"
      by (auto simp: Table_next_def DBCursor_next_def split: if_splits sum.splits option.splits prod.splits)
    have a: "after (pos c) (k, v)" using f by (auto simp: find_Some_iff)
    have "length (filter (after (Some k)) (contents (env e) (cfile c)))
            < length (filter (after (pos c)) (contents (env e) (cfile c)))"
      by (rule less[OF f]) (use a in \<open>auto simp: after_def split: option.splits\<close>)
    then show ?thesis using Some t' e' by (simp add: remaining_def)
  qed
  then show "((t', e'), (t, e)) \<in> measure (\<lambda>(t, e). remaining t e)" by simp
qed



text \<open>
  \<^verbatim>\<open>list(data.table(n))\<close> and \<^verbatim>\<open>len(data.table(n))\<close>: the object \<^verbatim>\<open>Data.table\<close> returns is the
  one in the registry.
\<close>

definition Berkeley_list ::
  "(BSDTable, Berkeley) Data \<Rightarrow> string \<Rightarrow> (error + (pyval \<times> pyval) list) \<times> (BSDTable, Berkeley) Data" where
  "Berkeley_list d n =
     (case Data_table Berkeley_methods d n [] of
        (Inl err, d1) \<Rightarrow> (Inl err, d1)
      | (Inr _, d1) \<Rightarrow> on_table d1 n list_Table)"


definition Data_len ::
  "(('c, 'z) Table_scheme, 'e) Methods \<Rightarrow> (('c, 'z) Table_scheme, 'e) Data \<Rightarrow> string
    \<Rightarrow> (error + pyval) \<times> (('c, 'z) Table_scheme, 'e) Data" where
  "Data_len M d n =
     (case Data_table M d n [] of
        (Inl err, d1) \<Rightarrow> (Inl err, d1)
      | (Inr _, d1) \<Rightarrow> on_table d1 n (len_m M))"



section \<open>The scenario of the module's examples\<close>

text \<open>
  A new facade on an empty directory, \<^verbatim>\<open>open('games')\<close>, then
  \<^verbatim>\<open>put('games', 'game1', 'germany')\<close> and \<^verbatim>\<open>put('games', 'game2', 'usa')\<close>.
\<close>

definition games_berkeley :: "(BSDTable, Berkeley) Data" where
  "games_berkeley =
     snd (Data_put Berkeley_methods
           (snd (Data_put Berkeley_methods
                  (snd (Berkeley_open (Berkeley_init ''/tmp/db'' []) ''games''))
                  ''games'' ''game1'' ''germany''))
           ''games'' ''game2'' ''usa'')"

definition games_sqlite :: "(SQLTable, Connection) Data" where
  "games_sqlite =
     snd (Data_put SQLite_methods
           (snd (Data_put SQLite_methods
                  (snd (SQLite_open (SQLite_init ''/tmp/db'' []) ''games''))
                  ''games'' ''game1'' ''germany''))
           ''games'' ''game2'' ''usa'')"

text \<open>
  The same state with an \<^verbatim>\<open>Index\<close> bound to the table object under the name \<^verbatim>\<open>date\<close>
  (\<^verbatim>\<open>setattr(data.tables['games'], 'date', index)\<close>), which no method of the module does.
\<close>

definition games_with_date_index :: "(BSDTable, Berkeley) Data" where
  "games_with_date_index =
     \<lparr>path = ''/tmp/db'',
      tables = [(''games'',
                 \<lparr>name = ''games'', cursor = None, indexes = [],
                  attrs = [(''date'', \<lparr>idx_db = \<lparr>fname = ''games_idx_date.db'', db_closed = False\<rparr>,
                                       idx_cursor = None, cursor_value = None\<rparr>)],
                  db = \<lparr>fname = ''games.db'', db_closed = False\<rparr>\<rparr>)],
      engine = \<lparr>env = \<lparr>files = [(''games.db'', [(''game1'', ''germany''), (''game2'', ''usa'')]),
                                  (''games_idx_date.db'', [])],
                       env_closed = False\<rparr>,
                indexes_attr = None\<rparr>\<rparr>"

section \<open>Properties\<close>

subsection \<open>The registry\<close>

lemma assert_exist_known:
  "map_of (tables d) n = Some t \<Longrightarrow> assert_exist M d n = (Inr (), d)"
  by (auto simp: assert_exist_def map_of_eq_None_iff[symmetric] simp del: map_of_eq_None_iff)



lemma on_table_keys:
  "n \<in> set (map fst (tables d)) \<Longrightarrow> n \<in> set (map fst (tables (snd (on_table d n f))))"
  by (auto simp: on_table_def AList.dom_update split: option.splits prod.splits)

lemma Data_verify_unknown:
  "n \<notin> set (map fst (tables d)) \<Longrightarrow> Data_verify M d n = (Inl KeyError, d)"
  by (simp add: Data_verify_def on_table_def map_of_eq_None_iff[THEN iffD2] image_iff)

lemma DB_open_file_name:
  "\<not> env_closed e \<Longrightarrow> file_name f \<Longrightarrow>
     DB_open e f =
       Inr (\<lparr>fname = f, db_closed = False\<rparr>,
            (case map_of (files e) f of
               None \<Rightarrow> e\<lparr>files := AList.update f [] (files e)\<rparr>
             | Some _ \<Rightarrow> e))"
  by (simp add: DB_open_def file_name_def)

lemma Berkeley_open_registers:
  assumes "\<not> env_closed (env (engine d))" and "file_name (n @ ''.db'')"
  shows "fst (Berkeley_open d n) = Inr ()
       \<and> map_of (tables (snd (Berkeley_open d n))) n =
           Some (BSDTable_init n \<lparr>fname = n @ ''.db'', db_closed = False\<rparr>)
       \<and> contents (env (engine (snd (Berkeley_open d n)))) (n @ ''.db'') =
           contents (env (engine d)) (n @ ''.db'')"
  using assms
  by (auto simp: Berkeley_open_def DB_open_file_name Data_open_def AList.update_conv' contents_def
      split: option.splits)

lemma SQLite_open_registers:
  assumes "\<not> conn_closed (engine d)"
    and "n \<in> set (map fst (relations (engine d)))
         \<or> bare_name n \<and> \<not> same_name n (relations (engine d))"
  shows "fst (SQLite_open d n) = Inr ()
       \<and> map_of (tables (snd (SQLite_open d n))) n = Some (SQLTable_init n)
       \<and> map_of (relations (engine (snd (SQLite_open d n)))) n =
           Some (case map_of (relations (engine d)) n of None \<Rightarrow> [] | Some r \<Rightarrow> r)"
proof (cases "map_of (relations (engine d)) n")
  case None
  then have "n \<notin> set (map fst (relations (engine d)))"
    by (simp add: map_of_eq_None_iff)
  with assms(2) have "bare_name n" and "\<not> same_name n (relations (engine d))" by auto
  with None assms(1) show ?thesis
    by (simp add: SQLite_open_def execute_def run_def fetchone_def commit_def Data_open_def
        AList.update_conv')
next
  case (Some r)
  with assms(1) show ?thesis
    by (simp add: SQLite_open_def execute_def run_def fetchone_def Data_open_def
        AList.update_conv')
qed

lemma map_of_keys: "map_of al k = Some v \<Longrightarrow> k \<in> set (map fst al)"
  by (metis map_of_eq_None_iff option.distinct(1) set_map)

lemma auto_open_calls:
  assumes "n \<notin> set (map fst (tables d))"
  shows "Data_put M d n key data =
           (case open_m M d n of
              (Inl err, d1) \<Rightarrow> (Inl err, d1)
            | (Inr u, d1) \<Rightarrow> on_table d1 n (\<lambda>t. put_m M t key data))"
    and "Data_get M d n key =
           (case open_m M d n of
              (Inl err, d1) \<Rightarrow> (Inl err, d1)
            | (Inr u, d1) \<Rightarrow> on_table d1 n (\<lambda>t. get_m M t key))"
    and "Data_delete M d n k =
           (case open_m M d n of
              (Inl err, d1) \<Rightarrow> (Inl err, d1)
            | (Inr u, d1) \<Rightarrow> on_table d1 n (\<lambda>t. delete_m M t (KBytes (encode (str k)))))"
  using assms by (simp_all add: Data_put_def Data_get_def Data_delete_def assert_exist_def)

lemma auto_open_registered:
  assumes "n \<notin> set (map fst (tables d))"
    and "fst (open_m M d n) = Inr ()" and "map_of (tables (snd (open_m M d n))) n = Some t"
  shows "n \<in> set (map fst (tables (snd (Data_put M d n key data))))
       \<and> n \<in> set (map fst (tables (snd (Data_get M d n key))))
       \<and> n \<in> set (map fst (tables (snd (Data_delete M d n k))))"
proof -
  obtain d1 where o: "open_m M d n = (Inr (), d1)" and t: "map_of (tables d1) n = Some t"
    using assms(2,3) by (cases "open_m M d n") auto
  have k: "n \<in> set (map fst (tables d1))" using t by (rule map_of_keys)
  show ?thesis
    using on_table_keys[OF k, where f = "\<lambda>t. put_m M t key data"]
      on_table_keys[OF k, where f = "\<lambda>t. get_m M t key"]
      on_table_keys[OF k, where f = "\<lambda>t. delete_m M t (KBytes (encode (str k)))"]
    by (simp add: auto_open_calls[OF assms(1)] o)
qed

subsection \<open>A scan of the ordered engine\<close>





subsection \<open>A scan of the relational engine\<close>



subsection \<open>The scenario states\<close>



subsection \<open>Names the engines refuse\<close>

lemma bare_name_games: "bare_name ''games''"
  by code_simp

lemma SQLite_refused_names:
  "Data_put SQLite_methods (SQLite_init ''/tmp/db'' []) ''order'' ''k'' ''v'' =
     (Inl OperationalError, SQLite_init ''/tmp/db'' [])
   \<and> fst (SQLite_open (SQLite_init ''/tmp/db'' []) []) = Inl OperationalError
   \<and> fst (SQLite_open (SQLite_init ''/tmp/db'' []) ''a b'') = Inl OperationalError
   \<and> fst (SQLite_open (SQLite_init ''/tmp/db'' []) ''1x'') = Inl OperationalError
   \<and> fst (SQLite_open (SQLite_init ''/tmp/db'' []) ''my-table'') = Inl OperationalError
   \<and> fst (SQLite_open (SQLite_init ''/tmp/db'' []) ''sqlite_x'') = Inl OperationalError
   \<and> fst (SQLite_open (SQLite_init ''/tmp/db'' []) ''Group'') = Inl OperationalError
   \<and> Data_get SQLite_methods games_sqlite ''Games'' ''game1'' = (Inl OperationalError, games_sqlite)"
  by code_simp

lemma Berkeley_refused_names:
  "Data_put Berkeley_methods (Berkeley_init ''/tmp/db'' []) ''a/b'' ''k'' ''v'' =
     (Inl DBNoSuchFileError, Berkeley_init ''/tmp/db'' [])"
  by code_simp

subsection \<open>The ordered engine keeps its files sorted\<close>

lemma map_of_bdb_put: "map_of (bdb_put k v xs) k = Some v"
  by (induction xs) auto

lemma map_of_bdb_put_other: "k' \<noteq> k \<Longrightarrow> map_of (bdb_put k v xs) k' = map_of xs k'"
  by (induction xs) auto

lemma keys_bdb_put: "set (map fst (bdb_put k v xs)) = insert k (set (map fst xs))"
  by (induction k v xs rule: bdb_put.induct) auto

lemma sorted_bdb_put:
  "sorted_wrt (<) (map fst xs) \<Longrightarrow> sorted_wrt (<) (map fst (bdb_put k v xs))"
proof (induction xs)
  case Nil
  then show ?case by simp
next
  case (Cons a xs)
  obtain k' v' where a: "a = (k', v')" by (cases a)
  from Cons.prems a have gt: "\<And>y. y \<in> fst ` set xs \<Longrightarrow> k' < y" and srt: "sorted_wrt (<) (map fst xs)"
    by auto
  show ?case
  proof (cases "k < k'")
    case True
    then have "\<And>y. y \<in> fst ` set xs \<Longrightarrow> k < y" using gt less_trans by blast
    with True Cons.prems a show ?thesis by auto
  next
    case False
    show ?thesis
    proof (cases "k = k'")
      case True
      with Cons.prems a show ?thesis by auto
    next
      case ne: False
      with False have "k' < k" by simp
      then have "\<And>y. y \<in> fst ` set (bdb_put k v xs) \<Longrightarrow> k' < y"
        using gt keys_bdb_put[of k v xs] by auto
      with False ne a Cons.IH[OF srt] show ?thesis by auto
    qed
  qed
qed

lemma contents_update:
  "contents (e\<lparr>files := AList.update f x (files e)\<rparr>) f = x"
  by (simp add: contents_def AList.update_conv')

lemma sorted_bdb_delete:
  "sorted_wrt (<) (map fst xs) \<Longrightarrow> sorted_wrt (<) (map fst (filter P xs))"
  by (simp add: sorted_wrt_map sorted_wrt_filter)

subsection \<open>The ordered adapter\<close>

text \<open>
  On an open table \<^verbatim>\<open>get\<close> after \<^verbatim>\<open>put\<close> returns the value; \<^verbatim>\<open>get\<close> and \<^verbatim>\<open>delete\<close> of a key the
  file does not hold raise and change nothing.
\<close>

lemma Berkeley_put_get:
  assumes "map_of (tables d) n = Some t" and "\<not> db_closed (db t)"
  shows "fst (Data_get Berkeley_methods (snd (Data_put Berkeley_methods d n key data)) n key) = Inr (PyStr data)"
  using assms
  by (simp add: Data_put_def Data_get_def assert_exist_known on_table_def Berkeley_methods_def
      BSDTable_put_def BSDTable_get_def DB_put_def DB_get_def contents_update map_of_bdb_put
      AList.update_conv' encode_def decode_def)

lemma Berkeley_get_missing:
  assumes "map_of (tables d) n = Some t" and "\<not> db_closed (db t)"
    and "map_of (contents (env (engine d)) (fname (db t))) (encode key) = None"
  shows "Data_get Berkeley_methods d n key = (Inl AttributeError, d)"
  using assms
  by (simp add: Data_get_def assert_exist_known on_table_def Berkeley_methods_def
      BSDTable_get_def DB_get_def AList.update_triv)

lemma Berkeley_delete_missing:
  assumes "map_of (tables d) n = Some t" and "\<not> db_closed (db t)"
    and "map_of (contents (env (engine d)) (fname (db t))) (encode (str key)) = None"
  shows "Data_delete Berkeley_methods d n key = (Inl DBNotFoundError, d)"
  using assms
  by (simp add: Data_delete_def assert_exist_known on_table_def Berkeley_methods_def
      Table_delete_def DB_delete_def AList.update_triv)

subsection \<open>\<^verbatim>\<open>str\<close> of \<^verbatim>\<open>bytes\<close>\<close>

lemma length_escape_byte: "1 \<le> length (escape_byte q c)"
  by (simp add: escape_byte_def)

lemma length_concat_escape: "length b \<le> length (concat (map (escape_byte q) b))"
proof (induction b)
  case Nil
  then show ?case by simp
next
  case (Cons c b)
  with length_escape_byte[of q c] show ?case by simp
qed

lemma bytes_repr_longer: "length b < length (bytes_repr b)"
proof -
  obtain q where "bytes_repr b = CHR ''b'' # q # concat (map (escape_byte q) b) @ [q]"
    by (simp add: bytes_repr_def Let_def)
  then show ?thesis using length_concat_escape[of b q] by simp
qed

lemma str_encode_neq: "str (KBytes (encode (str (KStr key)))) \<noteq> key"
  using bytes_repr_longer[of key] by (auto simp: encode_def)

subsection \<open>The relational adapter\<close>

text \<open>
  \<^verbatim>\<open>get\<close> of a key without a row returns \<^verbatim>\<open>None\<close>. \<^verbatim>\<open>delete\<close> through the facade removes the rows
  whose key is the \<^verbatim>\<open>repr\<close> of the encoded key and keeps every row of the key itself.
  \<^verbatim>\<open>get\<close> after \<^verbatim>\<open>put\<close> returns the value when no row of the key holds the empty string.
\<close>

lemma SQLite_get_missing:
  assumes "map_of (tables d) n = Some t" and "\<not> conn_closed (engine d)"
    and "map_of (relations (engine d)) (name t) = Some r" and "key \<notin> fst ` set r"
  shows "fst (Data_get SQLite_methods d n key) = Inr PyNone"
proof -
  have "filter (\<lambda>(k, v). k = key) r = []"
    using assms(4) by (force simp: filter_empty_conv)
  with assms(1,2,3) show ?thesis
    by (simp add: Data_get_def assert_exist_known on_table_def SQLite_methods_def
        SQLTable_get_def execute_def run_def fetchone_def)
qed

lemma SQLite_delete_keeps_row:
  assumes "map_of (tables d) n = Some t" and "\<not> conn_closed (engine d)"
    and "map_of (relations (engine d)) (name t) = Some r"
  shows "fst (Data_delete SQLite_methods d n (KStr key)) = Inr ()
       \<and> map_of (relations (engine (snd (Data_delete SQLite_methods d n (KStr key))))) (name t)
           = Some (filter (\<lambda>(k, v). k \<noteq> bytes_repr key) r)
       \<and> filter (\<lambda>(k, v). k = key) (filter (\<lambda>(k, v). k \<noteq> bytes_repr key) r) = filter (\<lambda>(k, v). k = key) r"
proof -
  have "bytes_repr key \<noteq> key" using bytes_repr_longer[of key] by auto
  then have "filter (\<lambda>(k, v). k = key) (filter (\<lambda>(k, v). k \<noteq> bytes_repr key) r) = filter (\<lambda>(k, v). k = key) r"
    by (induction r) auto
  with assms show ?thesis
    by (simp add: Data_delete_def assert_exist_known on_table_def SQLite_methods_def
        SQLTable_delete_def execute_def run_def AList.update_conv' encode_def)
qed

lemma filter_key_update:
  "filter (\<lambda>(k, v). k = key) (map (\<lambda>(k, v). if k = key then (key, data) else (k, v)) r)
     = map (\<lambda>_. (key, data)) (filter (\<lambda>(k, v). k = key) r)"
  by (induction r) auto

lemma SQLite_put_get:
  assumes "map_of (tables d) n = Some t" and "\<not> conn_closed (engine d)"
    and "map_of (relations (engine d)) (name t) = Some r"
    and "\<forall>v. (key, v) \<in> set r \<longrightarrow> v \<noteq> []"
  shows "fst (Data_get SQLite_methods (snd (Data_put SQLite_methods d n key data)) n key) = Inr (PyStr data)"
proof (cases "filter (\<lambda>(k, v). k = key) r")
  case Nil
  with assms(1,2,3) show ?thesis
    by (simp add: Data_put_def Data_get_def assert_exist_known on_table_def SQLite_methods_def
        SQLTable_put_def SQLTable_get_def sql_statement_def execute_def run_def fetchone_def
        commit_def AList.update_conv')
next
  case (Cons a rest)
  obtain k w where a: "a = (k, w)" by (cases a)
  have "a \<in> set (filter (\<lambda>(k, v). k = key) r)" using Cons by simp
  with a have k: "k = key" and "(key, w) \<in> set r" by auto
  with assms(4) have w: "w \<noteq> []" by blast
  from Cons a k assms(1,2,3) w show ?thesis
    by (simp add: Data_put_def Data_get_def assert_exist_known on_table_def SQLite_methods_def
        SQLTable_put_def SQLTable_get_def sql_statement_def execute_def run_def fetchone_def
        commit_def AList.update_conv' filter_key_update)
qed

subsection \<open>Leaving the scope\<close>

lemma Berkeley_exit_without_indexes:
  "indexes_attr (engine d) = None \<Longrightarrow> Berkeley_exit d = (Inl AttributeError, d)"
  by (simp add: Berkeley_exit_def Berkeley_close_def)

lemma Berkeley_exit_with_indexes:
  assumes "indexes_attr (engine d) = Some ixs"
  shows "fst (Berkeley_exit d) = Inr ()
       \<and> env_closed (env (engine (snd (Berkeley_exit d))))
       \<and> (\<forall>(n, t) \<in> set (tables (snd (Berkeley_exit d))).
             db_closed (db t) \<and> (\<forall>c. cursor t = Some c \<longrightarrow> cursor_closed c))"
  using assms
  by (auto simp: Berkeley_exit_def Berkeley_close_def DBEnv_close_def close_table_def
      BSDTable_close_def DB_close_def DBCursor_close_def)

lemma SQLite_exit_commits_closes:
  assumes "\<not> conn_closed (engine d)"
  shows "SQLite_exit d =
     (Inr (), d\<lparr>engine := (engine d)\<lparr>committed := relations (engine d), conn_closed := True\<rparr>\<rparr>)"
  using assms by (simp add: SQLite_exit_def commit_def Connection_close_def)

lemma SQLite_scope_finalizes:
  assumes "\<not> conn_closed (engine (snd (body d)))"
  shows "fst (with_scope SQLite_methods d body) = fst (body d)
       \<and> conn_closed (engine (snd (with_scope SQLite_methods d body)))
       \<and> committed (engine (snd (with_scope SQLite_methods d body))) = relations (engine (snd (body d)))"
proof (cases "body d")
  case (Pair r d1)
  with assms have "SQLite_exit d1 =
     (Inr (), d1\<lparr>engine := (engine d1)\<lparr>committed := relations (engine d1), conn_closed := True\<rparr>\<rparr>)"
    by (simp add: SQLite_exit_commits_closes)
  with Pair show ?thesis by (simp add: with_scope_def SQLite_methods_def)
qed

section \<open>The claims\<close>

text \<open>
  C1. Claim: for every backend, table, key and value, \<^verbatim>\<open>get\<close> after \<^verbatim>\<open>put(T, k, v)\<close>
  returns \<open>v\<close>. On the relational backend \<^verbatim>\<open>SQLTable.put\<close> decides between \<^verbatim>\<open>INSERT\<close> and
  \<^verbatim>\<open>UPDATE\<close> by the truth value of what \<^verbatim>\<open>get\<close> returns, and the empty string is false:
  after \<^verbatim>\<open>put('games', 'k', '')\<close>, \<^verbatim>\<open>put('games', 'k', 'x')\<close> inserts a second row and
  \<^verbatim>\<open>get('games', 'k')\<close> still returns the empty string of the first.
\<close>

theorem put_get_sqlite_after_empty_value:
  "fst (Data_get SQLite_methods
         (snd (Data_put SQLite_methods
                (snd (Data_put SQLite_methods (SQLite_init ''/tmp/db'' []) ''games'' ''k'' []))
                ''games'' ''k'' ''x''))
         ''games'' ''k'') = Inr (PyStr [])"
  by code_simp

text \<open>
  C2. Claim: \<^verbatim>\<open>get\<close> of a key never written returns an absent result on both backends and
  raises nothing. On the ordered backend \<^verbatim>\<open>BSDTable.get\<close> calls \<^verbatim>\<open>decode\<close> on the \<^verbatim>\<open>None\<close>
  the engine returns: on a new facade, \<^verbatim>\<open>get('games', 'game1')\<close> opens the table and
  ends in \<^verbatim>\<open>AttributeError\<close>.
\<close>

theorem get_missing_key_berkeley_raises:
  "Data_get Berkeley_methods (Berkeley_init ''/tmp/db'' []) ''games'' ''game1'' =
     (Inl AttributeError, snd (Berkeley_open (Berkeley_init ''/tmp/db'' []) ''games''))"
  by code_simp

text \<open>
  C3. Claim: after \<^verbatim>\<open>delete(T, k)\<close> through the facade, \<^verbatim>\<open>get(T, k)\<close> is absent, and
  \<^verbatim>\<open>delete\<close> of an absent key does not raise. \<^verbatim>\<open>Data.delete\<close> turns the key into \<^verbatim>\<open>bytes\<close>
  and \<^verbatim>\<open>SQLTable.delete\<close> applies \<^verbatim>\<open>str\<close> to that, so the statement deletes the rows
  whose key is \<^verbatim>\<open>"b'game3'"\<close>: after \<^verbatim>\<open>put('games', 'game3', 'usa')\<close> and
  \<^verbatim>\<open>delete('games', 'game3')\<close> on the relational backend, \<^verbatim>\<open>get('games', 'game3')\<close>
  returns \<^verbatim>\<open>'usa'\<close>.
\<close>

theorem delete_then_get_sqlite_still_present:
  "fst (Data_get SQLite_methods
         (snd (Data_delete SQLite_methods
                (snd (Data_put SQLite_methods (SQLite_init ''/tmp/db'' []) ''games'' ''game3'' ''usa''))
                ''games'' (KStr ''game3'')))
         ''games'' ''game3'') = Inr (PyStr ''usa'')"
  by code_simp

text \<open>
  C4. Claim: \<^verbatim>\<open>put\<close> is an upsert for all values, the empty string included: after
  \<^verbatim>\<open>put(T, k, v1); put(T, k, v2)\<close>, \<^verbatim>\<open>get\<close> returns \<open>v2\<close> and there is one entry for \<open>k\<close>.
  On the relational backend with \<open>v1\<close> empty, the second \<^verbatim>\<open>put\<close> inserts: \<^verbatim>\<open>get\<close> returns
  the empty string, the table has two rows for the key and \<^verbatim>\<open>len\<close> is 2.
\<close>

theorem put_twice_sqlite_empty_value_two_rows:
  "fst (Data_get SQLite_methods
         (snd (Data_put SQLite_methods
                (snd (Data_put SQLite_methods (SQLite_init ''/tmp/db'' []) ''games'' ''k'' []))
                ''games'' ''k'' ''x''))
         ''games'' ''k'') = Inr (PyStr [])
   \<and> map_of (relations (engine
         (snd (Data_put SQLite_methods
                (snd (Data_put SQLite_methods (SQLite_init ''/tmp/db'' []) ''games'' ''k'' []))
                ''games'' ''k'' ''x'')))) ''games'' = Some [(''k'', []), (''k'', ''x'')]
   \<and> fst (Data_len SQLite_methods
         (snd (Data_put SQLite_methods
                (snd (Data_put SQLite_methods (SQLite_init ''/tmp/db'' []) ''games'' ''k'' []))
                ''games'' ''k'' ''x''))
         ''games'') = Inr (PyInt 2)"
  by code_simp

text \<open>
  C5. Claim: on every way out of the scope both backends finalize; the ordered backend
  closes every cursor, every index and table handle and the environment.
  \<^verbatim>\<open>Berkeley.close\<close> starts with \<^verbatim>\<open>for index in self.indexes\<close>, and no \<^verbatim>\<open>__init__\<close> gives
  the facade that attribute: the scope around one \<^verbatim>\<open>put\<close> ends in \<^verbatim>\<open>AttributeError\<close>
  with the table handle and the environment still open.
\<close>

theorem berkeley_scope_exit_raises:
  "with_scope Berkeley_methods (Berkeley_init ''/tmp/db'' [])
      (\<lambda>d. Data_put Berkeley_methods d ''games'' ''game1'' ''germany'')
    = (Inl AttributeError,
       \<lparr>path = ''/tmp/db'',
        tables = [(''games'', \<lparr>name = ''games'', cursor = None, indexes = [], attrs = [],
                               db = \<lparr>fname = ''games.db'', db_closed = False\<rparr>\<rparr>)],
        engine = \<lparr>env = \<lparr>files = [(''games.db'', [(''game1'', ''germany'')])], env_closed = False\<rparr>,
                  indexes_attr = None\<rparr>\<rparr>)"
  by code_simp



text \<open>
  C7. Claim: \<^verbatim>\<open>table(name)\<close> returns the table; \<^verbatim>\<open>table(name, indexName=value)\<close> returns the
  named index seeded with the value; an index name never registered with \<^verbatim>\<open>add_index\<close>
  fails with \<open>UnknownIndexError\<close>. The module has no such error: the selector is looked
  up with \<^verbatim>\<open>getattr\<close> on the table object, and on a new facade
  \<^verbatim>\<open>table('games', date='2020-10-26')\<close> ends in \<^verbatim>\<open>AttributeError\<close>.
\<close>

theorem table_selector_counterexample:
  "fst (Data_table Berkeley_methods (Berkeley_init ''/tmp/db'' []) ''games'' [(''date'', ''2020-10-26'')])
     = Inl AttributeError
   \<and> fst (Data_table Berkeley_methods (Berkeley_init ''/tmp/db'' []) ''games'' [(''date'', ''2020-10-26'')])
     \<noteq> Inl UnknownIndexError"
  by code_simp

text \<open>
  C7, as the module has it: once the table is in the registry (it is opened when
  unknown), \<^verbatim>\<open>table(name)\<close> returns it. \<^verbatim>\<open>table(name, k=v)\<close> with \<open>k\<close> other than \<^verbatim>\<open>self\<close>,
  \<^verbatim>\<open>name\<close> and \<^verbatim>\<open>__class__\<close> returns the \<^verbatim>\<open>Index\<close> bound to the table object as attribute
  \<open>k\<close>, with \<^verbatim>\<open>cursor_value\<close> set to \<open>v\<close> in the object the table refers to, and ends in
  \<^verbatim>\<open>AttributeError\<close> when the table object has no such \<^verbatim>\<open>Index\<close>. With \<open>k\<close> one of \<^verbatim>\<open>self\<close>
  and \<^verbatim>\<open>name\<close> the call is a \<^verbatim>\<open>TypeError\<close> and opens nothing; with \<^verbatim>\<open>__class__\<close> it
  returns the class of the table.
\<close>

theorem table_selector:
  assumes "assert_exist M d n = (Inr (), d1)" and "map_of (tables d1) n = Some t"
    and "k \<noteq> ''self''" and "k \<noteq> ''name''" and "k \<noteq> ''__class__''"
  shows "Data_table M d n [] = (Inr (TableObj t), d1)
       \<and> Data_table M d n [(k, v)] =
           (case map_of (attrs t) k of
              None \<Rightarrow> (Inl AttributeError, d1)
            | Some index_obj \<Rightarrow>
                (Inr (IndexObj (index_obj\<lparr>cursor_value := Some v\<rparr>)),
                 d1\<lparr>tables := AList.update n
                      (t\<lparr>attrs := AList.update k (index_obj\<lparr>cursor_value := Some v\<rparr>) (attrs t)\<rparr>)
                      (tables d1)\<rparr>))
       \<and> Data_table M d n [(''self'', v)] = (Inl TypeError, d)
       \<and> Data_table M d n [(''name'', v)] = (Inl TypeError, d)
       \<and> Data_table M d n [(''__class__'', v)] = (Inr ClassObj, d1)"
  using assms by (simp add: Data_table_def split: option.splits)

theorem table_selector_witness:
  "Data_table Berkeley_methods games_with_date_index ''games'' [] =
     (Inr (TableObj \<lparr>name = ''games'', cursor = None, indexes = [],
                  attrs = [(''date'', \<lparr>idx_db = \<lparr>fname = ''games_idx_date.db'', db_closed = False\<rparr>,
                                       idx_cursor = None, cursor_value = None\<rparr>)],
                  db = \<lparr>fname = ''games.db'', db_closed = False\<rparr>\<rparr>),
      games_with_date_index)
   \<and> fst (Data_table Berkeley_methods games_with_date_index ''games'' [(''date'', ''2020-10-26'')]) =
     Inr (IndexObj \<lparr>idx_db = \<lparr>fname = ''games_idx_date.db'', db_closed = False\<rparr>,
                   idx_cursor = None, cursor_value = Some ''2020-10-26''\<rparr>)
   \<and> map_of (tables (snd (Data_table Berkeley_methods games_with_date_index ''games''
                            [(''date'', ''2020-10-26'')]))) ''games'' =
     Some \<lparr>name = ''games'', cursor = None, indexes = [],
           attrs = [(''date'', \<lparr>idx_db = \<lparr>fname = ''games_idx_date.db'', db_closed = False\<rparr>,
                                idx_cursor = None, cursor_value = Some ''2020-10-26''\<rparr>)],
           db = \<lparr>fname = ''games.db'', db_closed = False\<rparr>\<rparr>
   \<and> Data_table Berkeley_methods games_with_date_index ''games'' [(''venue'', ''x'')] =
     (Inl AttributeError, games_with_date_index)
   \<and> Data_table Berkeley_methods games_with_date_index ''games'' [(''name'', ''x'')] =
     (Inl TypeError, games_with_date_index)"
proof -
  let ?t = "\<lparr>name = ''games'', cursor = None, indexes = [],
                  attrs = [(''date'', \<lparr>idx_db = \<lparr>fname = ''games_idx_date.db'', db_closed = False\<rparr>,
                                       idx_cursor = None, cursor_value = None\<rparr>)],
                  db = \<lparr>fname = ''games.db'', db_closed = False\<rparr>\<rparr>"
  have 1: "assert_exist Berkeley_methods games_with_date_index ''games'' = (Inr (), games_with_date_index)"
    by (simp add: assert_exist_def games_with_date_index_def)
  have 2: "map_of (tables games_with_date_index) ''games'' = Some ?t"
    by (simp add: games_with_date_index_def)
  have d: "''date'' \<noteq> ''self''" "''date'' \<noteq> ''name''" "''date'' \<noteq> ''__class__''" by simp_all
  have v: "''venue'' \<noteq> ''self''" "''venue'' \<noteq> ''name''" "''venue'' \<noteq> ''__class__''" by simp_all
  note a = table_selector[OF 1 2 d, of "''2020-10-26''"]
  note b = table_selector[OF 1 2 v, of "''x''"]
  have t: "tables games_with_date_index = [(''games'', ?t)]"
    by (simp add: games_with_date_index_def)
  from a b show ?thesis by (simp add: t)
qed

text \<open>
  C8. Claim: on the ordered backend, after the two \<^verbatim>\<open>put\<close>s into \<^verbatim>\<open>games\<close>, the count of the
  table is 2 (and 1 after a \<^verbatim>\<open>delete\<close>). A \<^verbatim>\<open>BSDTable\<close> has no \<^verbatim>\<open>__len__\<close> (\<^verbatim>\<open>SQLTable\<close> and
  \<^verbatim>\<open>Index\<close> have): \<^verbatim>\<open>len(data.table('games'))\<close> ends in \<^verbatim>\<open>TypeError\<close>, before and after
  the \<^verbatim>\<open>delete\<close>, while the scan does return both pairs.
\<close>

theorem berkeley_scenario_count_raises:
  "fst (Data_len Berkeley_methods games_berkeley ''games'') = Inl TypeError
   \<and> fst (Berkeley_list games_berkeley ''games'') =
       Inr [(PyStr ''game1'', PyStr ''germany''), (PyStr ''game2'', PyStr ''usa'')]
   \<and> fst (Data_delete Berkeley_methods games_berkeley ''games'' (KStr ''game1'')) = Inr ()
   \<and> fst (Data_len Berkeley_methods
            (snd (Data_delete Berkeley_methods games_berkeley ''games'' (KStr ''game1'')))
            ''games'') = Inl TypeError"
  by code_simp

text \<open>
  C9. Claim: \<^verbatim>\<open>add_index\<close> with a name that is already a table or index name fails with
  \<open>DuplicateIndexError\<close>. \<^verbatim>\<open>Berkeley.add_index\<close> checks the name against the registry
  and then raises a string, which is a \<^verbatim>\<open>TypeError\<close>: with the table \<^verbatim>\<open>games\<close> open,
  \<^verbatim>\<open>add_index('games', callback, 'games')\<close> ends in \<^verbatim>\<open>TypeError\<close>.
\<close>

theorem add_index_table_name_raises_TypeError:
  "fst (Berkeley_add_index (snd (Berkeley_open (Berkeley_init ''/tmp/db'' []) ''games''))
          ''games'' index_callback ''games'') = Inl TypeError"
  by (simp add: Berkeley_add_index_def Berkeley_open_def Berkeley_init_def DB_open_def
      Data_open_def BSDTable_init_def)

text \<open>
  C10. For a name the registry does not hold, \<^verbatim>\<open>verify\<close> ends in \<^verbatim>\<open>KeyError\<close> and leaves
  the facade as it was, table not opened. \<^verbatim>\<open>put\<close>, \<^verbatim>\<open>get\<close> and \<^verbatim>\<open>delete\<close> call the
  backend's \<^verbatim>\<open>open\<close> first and then the method of the table it registered; when \<^verbatim>\<open>open\<close>
  raises, they end in its exception. \<^verbatim>\<open>open\<close> succeeds, and the registry holds the name
  afterwards, on the ordered backend for a name that makes a file name and on the
  relational backend for a name that is a relation already or that \<^verbatim>\<open>CREATE TABLE\<close>
  takes.
\<close>

theorem verify_no_auto_open:
  assumes "n \<notin> set (map fst (tables b))" and "n \<notin> set (map fst (tables s))"
  shows "Data_verify Berkeley_methods b n = (Inl KeyError, b)
       \<and> Data_verify SQLite_methods s n = (Inl KeyError, s)
       \<and> Data_put Berkeley_methods b n key data =
           (case Berkeley_open b n of
              (Inl err, b1) \<Rightarrow> (Inl err, b1)
            | (Inr u, b1) \<Rightarrow> on_table b1 n (\<lambda>t. BSDTable_put t key data))
       \<and> Data_get Berkeley_methods b n key =
           (case Berkeley_open b n of
              (Inl err, b1) \<Rightarrow> (Inl err, b1)
            | (Inr u, b1) \<Rightarrow> on_table b1 n (\<lambda>t. BSDTable_get t key))
       \<and> Data_delete Berkeley_methods b n k =
           (case Berkeley_open b n of
              (Inl err, b1) \<Rightarrow> (Inl err, b1)
            | (Inr u, b1) \<Rightarrow> on_table b1 n (\<lambda>t. Table_delete t (KBytes (encode (str k)))))
       \<and> Data_put SQLite_methods s n key data =
           (case SQLite_open s n of
              (Inl err, s1) \<Rightarrow> (Inl err, s1)
            | (Inr u, s1) \<Rightarrow> on_table s1 n (\<lambda>t. SQLTable_put t key data []))
       \<and> Data_get SQLite_methods s n key =
           (case SQLite_open s n of
              (Inl err, s1) \<Rightarrow> (Inl err, s1)
            | (Inr u, s1) \<Rightarrow> on_table s1 n (\<lambda>t. SQLTable_get t (KStr key)))
       \<and> Data_delete SQLite_methods s n k =
           (case SQLite_open s n of
              (Inl err, s1) \<Rightarrow> (Inl err, s1)
            | (Inr u, s1) \<Rightarrow> on_table s1 n (\<lambda>t. SQLTable_delete t (KBytes (encode (str k)))))
       \<and> (\<not> env_closed (env (engine b)) \<and> file_name (n @ ''.db'') \<longrightarrow>
            fst (Berkeley_open b n) = Inr ()
            \<and> map_of (tables (snd (Berkeley_open b n))) n =
                Some (BSDTable_init n \<lparr>fname = n @ ''.db'', db_closed = False\<rparr>)
            \<and> n \<in> set (map fst (tables (snd (Data_put Berkeley_methods b n key data))))
            \<and> n \<in> set (map fst (tables (snd (Data_get Berkeley_methods b n key))))
            \<and> n \<in> set (map fst (tables (snd (Data_delete Berkeley_methods b n k)))))
       \<and> (\<not> conn_closed (engine s)
            \<and> (n \<in> set (map fst (relations (engine s)))
                 \<or> bare_name n \<and> \<not> same_name n (relations (engine s))) \<longrightarrow>
            fst (SQLite_open s n) = Inr ()
            \<and> map_of (tables (snd (SQLite_open s n))) n = Some (SQLTable_init n)
            \<and> n \<in> set (map fst (tables (snd (Data_put SQLite_methods s n key data))))
            \<and> n \<in> set (map fst (tables (snd (Data_get SQLite_methods s n key))))
            \<and> n \<in> set (map fst (tables (snd (Data_delete SQLite_methods s n k)))))"
proof -
  have oB: "open_m Berkeley_methods = Berkeley_open" and pB: "put_m Berkeley_methods = BSDTable_put"
    and gB: "get_m Berkeley_methods = BSDTable_get" and dB: "delete_m Berkeley_methods = Table_delete"
    by (simp_all add: Berkeley_methods_def)
  have oS: "open_m SQLite_methods = SQLite_open"
    and pS: "put_m SQLite_methods = (\<lambda>t key data. SQLTable_put t key data [])"
    and gS: "get_m SQLite_methods = (\<lambda>t key. SQLTable_get t (KStr key))"
    and dS: "delete_m SQLite_methods = SQLTable_delete"
    by (simp_all add: SQLite_methods_def)
  note cB = auto_open_calls[OF assms(1), where M = Berkeley_methods, unfolded oB pB gB dB]
  note cS = auto_open_calls[OF assms(2), where M = SQLite_methods, unfolded oS pS gS dS]
  have rB: "fst (Berkeley_open b n) = Inr ()
            \<and> map_of (tables (snd (Berkeley_open b n))) n =
                Some (BSDTable_init n \<lparr>fname = n @ ''.db'', db_closed = False\<rparr>)
            \<and> n \<in> set (map fst (tables (snd (Data_put Berkeley_methods b n key data))))
            \<and> n \<in> set (map fst (tables (snd (Data_get Berkeley_methods b n key))))
            \<and> n \<in> set (map fst (tables (snd (Data_delete Berkeley_methods b n k))))"
    if "\<not> env_closed (env (engine b))" "file_name (n @ ''.db'')"
  proof -
    note r = Berkeley_open_registers[OF that]
    from r have 1: "fst (open_m Berkeley_methods b n) = Inr ()"
      and 2: "map_of (tables (snd (open_m Berkeley_methods b n))) n =
                Some (BSDTable_init n \<lparr>fname = n @ ''.db'', db_closed = False\<rparr>)"
      by (simp_all add: oB)
    from auto_open_registered[OF assms(1) 1 2] r show ?thesis by simp
  qed
  have rS: "fst (SQLite_open s n) = Inr ()
            \<and> map_of (tables (snd (SQLite_open s n))) n = Some (SQLTable_init n)
            \<and> n \<in> set (map fst (tables (snd (Data_put SQLite_methods s n key data))))
            \<and> n \<in> set (map fst (tables (snd (Data_get SQLite_methods s n key))))
            \<and> n \<in> set (map fst (tables (snd (Data_delete SQLite_methods s n k))))"
    if "\<not> conn_closed (engine s)"
      "n \<in> set (map fst (relations (engine s))) \<or> bare_name n \<and> \<not> same_name n (relations (engine s))"
  proof -
    note r = SQLite_open_registers[OF that]
    from r have 1: "fst (open_m SQLite_methods s n) = Inr ()"
      and 2: "map_of (tables (snd (open_m SQLite_methods s n))) n = Some (SQLTable_init n)"
      by (simp_all add: oS)
    from auto_open_registered[OF assms(2) 1 2] r show ?thesis by simp
  qed
  show ?thesis
    using Data_verify_unknown[OF assms(1)] Data_verify_unknown[OF assms(2)] cB cS rB rS
    by blast
qed

theorem verify_no_auto_open_witness:
  "Data_verify Berkeley_methods (Berkeley_init ''/tmp/db'' []) ''games'' =
     (Inl KeyError, Berkeley_init ''/tmp/db'' [])
   \<and> Data_verify SQLite_methods (SQLite_init ''/tmp/db'' []) ''games'' =
     (Inl KeyError, SQLite_init ''/tmp/db'' [])
   \<and> fst (Berkeley_open (Berkeley_init ''/tmp/db'' []) ''games'') = Inr ()
   \<and> fst (SQLite_open (SQLite_init ''/tmp/db'' []) ''games'') = Inr ()
   \<and> ''games'' \<in> set (map fst (tables (snd
         (Data_get Berkeley_methods (Berkeley_init ''/tmp/db'' []) ''games'' ''game1''))))
   \<and> ''games'' \<in> set (map fst (tables (snd
         (Data_get SQLite_methods (SQLite_init ''/tmp/db'' []) ''games'' ''game1''))))"
proof -
  have 1: "''games'' \<notin> set (map fst (tables (Berkeley_init ''/tmp/db'' [])))"
    by (simp add: Berkeley_init_def)
  have 2: "''games'' \<notin> set (map fst (tables (SQLite_init ''/tmp/db'' [])))"
    by (simp add: SQLite_init_def)
  have 3: "\<not> env_closed (env (engine (Berkeley_init ''/tmp/db'' []))) \<and> file_name (''games'' @ ''.db'')"
    by (simp add: Berkeley_init_def file_name_def)
  have 4: "\<not> conn_closed (engine (SQLite_init ''/tmp/db'' []))
           \<and> (''games'' \<in> set (map fst (relations (engine (SQLite_init ''/tmp/db'' []))))
                \<or> bare_name ''games'' \<and> \<not> same_name ''games'' (relations (engine (SQLite_init ''/tmp/db'' []))))"
    by (simp add: SQLite_init_def bare_name_games same_name_def)
  from verify_no_auto_open[OF 1 2, where key = "''game1''"] 3 4 show ?thesis by blast
qed

end
